theory Spec2Isabelle
  imports Complex_Main "HOL-Library.Multiset"
begin

section \<open>The store read by \<^verbatim>\<open>realm_stats\<close>\<close>

text \<open>
  The command \<^verbatim>\<open>analytics/management/commands/realm_stats.py\<close> queries the tables of
  \<^verbatim>\<open>zerver.models\<close>. A table is the list of its rows, a row is a record with the columns
  the command reads, a foreign key is the primary key of the row it refers to, and a
  lookup through a foreign key (\<^verbatim>\<open>sender__realm\<close>, \<^verbatim>\<open>recipient__type\<close>, ...) is the
  inner join the query layer generates: a row whose key resolves to nothing is dropped by
  the lookup. A \<^verbatim>\<open>datetime\<close> is its number of microseconds since the epoch.
\<close>

record realm =
  realm_id :: nat
  string_id :: string

record client =
  client_id :: nat
  client_name :: string

record user_profile =
  user_id :: nat
  user_realm :: nat
  is_active :: bool
  enable_desktop_notifications :: bool
  enter_sends :: bool

record recipient =
  recipient_id :: nat
  recipient_type :: nat
  type_id :: nat

record message =
  message_id :: nat
  sender :: nat
  recipient :: nat
  content :: string
  date_sent :: int
  sending_client :: nat

record stream =
  stream_id :: nat
  stream_realm :: nat
  stream_name :: string

record subscription =
  sub_user_profile :: nat
  sub_recipient :: nat
  active :: bool
  is_muted :: bool
  desktop_notifications :: bool

record user_activity =
  ua_user_profile :: nat
  ua_client :: nat
  query :: string
  last_visit :: int

text \<open>
  Modelled from the spec: a \<^verbatim>\<open>UserMessage\<close> row holds "per-user per-message flag bits,
  e.g. starred", and the mask \<^verbatim>\<open>UserMessage.flags.starred\<close> is not part of the sources. The
  command tests this one bit, with the lookup \<^verbatim>\<open>flags=UserMessage.flags.starred\<close>; the field
  \<open>starred\<close> is that bit.
\<close>

record user_message =
  um_user_profile :: nat
  um_message :: nat
  starred :: bool

record database =
  realms :: "realm list"
  clients :: "client list"
  users :: "user_profile list"
  recipients :: "recipient list"
  messages :: "message list"
  streams :: "stream list"
  subscriptions :: "subscription list"
  user_activities :: "user_activity list"
  user_messages :: "user_message list"

text \<open>
  Modelled from the spec: the class \<^verbatim>\<open>zerver.models.Recipient\<close> is not part of the
  sources; its column \<^verbatim>\<open>type\<close> "discriminates stream / direct / group-direct". The column
  is a small positive integer (the raw SQL of \<^verbatim>\<open>handle\<close> compares it with \<^verbatim>\<open>2\<close> to
  select stream recipients) and has the three values \<^verbatim>\<open>PERSONAL\<close>, \<^verbatim>\<open>STREAM\<close> and
  \<^verbatim>\<open>HUDDLE\<close>, the only ones the command names. The constants are distinct, and nothing
  below uses more of their values than that. \<open>PERSONAL\<close> is the type of a one-on-one
  recipient.
\<close>

definition PERSONAL :: nat where
  "PERSONAL = 1"

text \<open>
  Modelled from the spec: \<^verbatim>\<open>Recipient.STREAM\<close>, the type of a stream recipient; it is the
  \<^verbatim>\<open>2\<close> of the raw SQL of \<^verbatim>\<open>handle\<close>.
\<close>

definition STREAM :: nat where
  "STREAM = 2"

text \<open>
  Modelled from the spec: \<^verbatim>\<open>Recipient.HUDDLE\<close>, the type of a group-direct recipient.
\<close>

definition HUDDLE :: nat where
  "HUDDLE = 3"

subsection \<open>Rows behind foreign keys\<close>

definition get_user :: "database \<Rightarrow> nat \<Rightarrow> user_profile option" where
  "get_user db k = find (\<lambda>u. user_id u = k) (users db)"

definition get_client :: "database \<Rightarrow> nat \<Rightarrow> client option" where
  "get_client db k = find (\<lambda>c. client_id c = k) (clients db)"

definition get_recipient :: "database \<Rightarrow> nat \<Rightarrow> recipient option" where
  "get_recipient db k = find (\<lambda>r. recipient_id r = k) (recipients db)"

text \<open>\<^verbatim>\<open>sender__realm=realm\<close>\<close>

definition sender_realm_is :: "database \<Rightarrow> realm \<Rightarrow> message \<Rightarrow> bool" where
  "sender_realm_is db r m =
     (case get_user db (sender m) of
        None \<Rightarrow> False
      | Some u \<Rightarrow> user_realm u = realm_id r)"

text \<open>\<^verbatim>\<open>sending_client__name__in=names\<close>\<close>

definition sending_client_name_in :: "database \<Rightarrow> string list \<Rightarrow> message \<Rightarrow> bool" where
  "sending_client_name_in db names m =
     (case get_client db (sending_client m) of
        None \<Rightarrow> False
      | Some c \<Rightarrow> client_name c \<in> set names)"

text \<open>\<^verbatim>\<open>recipient__type=t\<close>, and its negation under \<^verbatim>\<open>exclude\<close>: both go through the join.\<close>

definition recipient_type_is :: "database \<Rightarrow> nat \<Rightarrow> message \<Rightarrow> bool" where
  "recipient_type_is db t m =
     (case get_recipient db (recipient m) of
        None \<Rightarrow> False
      | Some r \<Rightarrow> recipient_type r = t)"

definition recipient_type_is_not :: "database \<Rightarrow> nat \<Rightarrow> message \<Rightarrow> bool" where
  "recipient_type_is_not db t m =
     (case get_recipient db (recipient m) of
        None \<Rightarrow> False
      | Some r \<Rightarrow> recipient_type r \<noteq> t)"

text \<open>\<^verbatim>\<open>content__contains=sub\<close>: a literal, case-sensitive substring test.\<close>

fun contains :: "string \<Rightarrow> string \<Rightarrow> bool" where
  "contains [] sub = (sub = [])"
| "contains (c # cs) sub = (take (length sub) (c # cs) = sub \<or> contains cs sub)"

section \<open>The queries of the command\<close>

definition MOBILE_CLIENT_LIST :: "string list" where
  "MOBILE_CLIENT_LIST = [''Android'', ''ios'']"

definition HUMAN_CLIENT_LIST :: "string list" where
  "HUMAN_CLIENT_LIST = MOBILE_CLIENT_LIST @ [''website'']"

text \<open>
  The module-level query set \<^verbatim>\<open>human_messages\<close>; the method of the same name of the
  class \<^verbatim>\<open>Command\<close> is \<open>human_messages\<close> below.
\<close>

definition human_messages_qs :: "database \<Rightarrow> message list" where
  "human_messages_qs db = filter (sending_client_name_in db HUMAN_CLIENT_LIST) (messages db)"

text \<open>
  \<^verbatim>\<open>timezone_now() - datetime.timedelta(days=days_ago)\<close>. A method that calls
  \<^verbatim>\<open>timezone_now()\<close> takes the reading of the clock as an argument: one argument for each
  call, in the order of the calls.
\<close>

definition timedelta_days :: "int \<Rightarrow> int" where
  "timedelta_days d = d * 86400000000"

definition cutoff :: "int \<Rightarrow> int \<Rightarrow> int" where
  "cutoff now days_ago = now - timedelta_days days_ago"

definition active_users :: "database \<Rightarrow> int \<Rightarrow> realm \<Rightarrow> user_profile list" where
  "active_users db now r =
     (let activity_cutoff = cutoff now 7 in
      List.map_filter
        (\<lambda>a. case get_user db (ua_user_profile a) of
                None \<Rightarrow> None
              | Some u \<Rightarrow>
                  if user_realm u = realm_id r \<and> is_active u
                     \<and> last_visit a > activity_cutoff
                     \<and> query a = ''/json/users/me/pointer''
                     \<and> (case get_client db (ua_client a) of
                            None \<Rightarrow> False
                          | Some c \<Rightarrow> client_name c = ''website'')
                  then Some u else None)
        (user_activities db))"

definition messages_sent_by :: "database \<Rightarrow> int \<Rightarrow> user_profile \<Rightarrow> int \<Rightarrow> int" where
  "messages_sent_by db now user days_ago =
     (let sent_time_cutoff = cutoff now days_ago in
      int (length (filter (\<lambda>m. sender m = user_id user \<and> date_sent m > sent_time_cutoff)
                     (human_messages_qs db))))"

definition total_messages :: "database \<Rightarrow> int \<Rightarrow> realm \<Rightarrow> int \<Rightarrow> int" where
  "total_messages db now r days_ago =
     (let sent_time_cutoff = cutoff now days_ago in
      int (length (filter (\<lambda>m. sender_realm_is db r m \<and> date_sent m > sent_time_cutoff)
                     (messages db))))"

definition human_messages :: "database \<Rightarrow> int \<Rightarrow> realm \<Rightarrow> int \<Rightarrow> int" where
  "human_messages db now r days_ago =
     (let sent_time_cutoff = cutoff now days_ago in
      int (length (filter (\<lambda>m. sender_realm_is db r m \<and> date_sent m > sent_time_cutoff)
                     (human_messages_qs db))))"

text \<open>
  \<^verbatim>\<open>api_messages\<close> calls \<^verbatim>\<open>total_messages\<close> and then \<^verbatim>\<open>human_messages\<close>, and each of the
  two reads the clock: \<open>now1\<close> is the reading of the first call, \<open>now2\<close> that of the second.
\<close>

definition api_messages :: "database \<Rightarrow> int \<Rightarrow> int \<Rightarrow> realm \<Rightarrow> int \<Rightarrow> int" where
  "api_messages db now1 now2 r days_ago =
     total_messages db now1 r days_ago - human_messages db now2 r days_ago"

definition stream_messages :: "database \<Rightarrow> int \<Rightarrow> realm \<Rightarrow> int \<Rightarrow> int" where
  "stream_messages db now r days_ago =
     (let sent_time_cutoff = cutoff now days_ago in
      int (length (filter (\<lambda>m. sender_realm_is db r m \<and> date_sent m > sent_time_cutoff
                                \<and> recipient_type_is db STREAM m)
                     (human_messages_qs db))))"

definition private_messages :: "database \<Rightarrow> int \<Rightarrow> realm \<Rightarrow> int \<Rightarrow> int" where
  "private_messages db now r days_ago =
     (let sent_time_cutoff = cutoff now days_ago in
      int (length (filter (recipient_type_is_not db HUDDLE)
                     (filter (recipient_type_is_not db STREAM)
                        (filter (\<lambda>m. sender_realm_is db r m \<and> date_sent m > sent_time_cutoff)
                           (human_messages_qs db))))))"

definition group_private_messages :: "database \<Rightarrow> int \<Rightarrow> realm \<Rightarrow> int \<Rightarrow> int" where
  "group_private_messages db now r days_ago =
     (let sent_time_cutoff = cutoff now days_ago in
      int (length (filter (recipient_type_is_not db PERSONAL)
                     (filter (recipient_type_is_not db STREAM)
                        (filter (\<lambda>m. sender_realm_is db r m \<and> date_sent m > sent_time_cutoff)
                           (human_messages_qs db))))))"

subsection \<open>Feature-usage queries of \<^verbatim>\<open>handle\<close>\<close>

text \<open>\<^verbatim>\<open>UserProfile.objects.filter(realm=realm, is_active=True)\<close>\<close>

definition user_profiles_of :: "database \<Rightarrow> realm \<Rightarrow> user_profile list" where
  "user_profiles_of db r = filter (\<lambda>u. user_realm u = realm_id r \<and> is_active u) (users db)"

text \<open>
  The streams of the realm joined by raw SQL with the active subscriptions to their
  recipient rows (\<^verbatim>\<open>zerver_recipient.type = 2\<close>), one group per stream.
\<close>

definition subscribed_streams :: "database \<Rightarrow> realm \<Rightarrow> nat list" where
  "subscribed_streams db r =
     remdups (map stream_id
       (filter (\<lambda>s. stream_realm s = realm_id r
                    \<and> list_ex (\<lambda>sub. list_ex (\<lambda>rc. sub_recipient sub = recipient_id rc
                                                   \<and> recipient_type rc = 2
                                                   \<and> type_id rc = stream_id s
                                                   \<and> active sub)
                                          (recipients db))
                               (subscriptions db))
          (streams db)))"

text \<open>
  \<^verbatim>\<open>.values(k).annotate(count=Count(k))\<close>: one element per value of the column, with the
  number of rows that have it. The argument is the column of the selected rows.
\<close>

definition values_count :: "nat list \<Rightarrow> (nat \<times> nat) list" where
  "values_count ks = map (\<lambda>k. (k, count_list ks k)) (remdups ks)"

text \<open>\<^verbatim>\<open>user_profile__in=user_profiles\<close>\<close>

definition user_in :: "user_profile list \<Rightarrow> nat \<Rightarrow> bool" where
  "user_in user_profiles k = (k \<in> set (map user_id user_profiles))"

definition starrers :: "database \<Rightarrow> user_profile list \<Rightarrow> (nat \<times> nat) list" where
  "starrers db user_profiles =
     values_count (map um_user_profile
       (filter (\<lambda>um. user_in user_profiles (um_user_profile um) \<and> starred um)
          (user_messages db)))"

definition active_user_subs :: "database \<Rightarrow> user_profile list \<Rightarrow> subscription list" where
  "active_user_subs db user_profiles =
     filter (\<lambda>sub. user_in user_profiles (sub_user_profile sub) \<and> active sub)
       (subscriptions db)"

definition non_home_view :: "database \<Rightarrow> user_profile list \<Rightarrow> (nat \<times> nat) list" where
  "non_home_view db user_profiles =
     values_count (map sub_user_profile
       (filter is_muted (active_user_subs db user_profiles)))"

definition markup_messages :: "database \<Rightarrow> realm \<Rightarrow> (nat \<times> nat) list" where
  "markup_messages db r =
     values_count (map sender
       (filter (\<lambda>m. sender_realm_is db r m \<and> contains (content m) ''~~~'')
          (human_messages_qs db)))"

definition notifications :: "database \<Rightarrow> user_profile list \<Rightarrow> (nat \<times> nat) list" where
  "notifications db user_profiles =
     values_count (map sub_user_profile
       (filter desktop_notifications (active_user_subs db user_profiles)))"

definition all_message_count :: "database \<Rightarrow> realm \<Rightarrow> int" where
  "all_message_count db r = int (length (filter (sender_realm_is db r) (human_messages_qs db)))"

definition multi_paragraph_message_count :: "database \<Rightarrow> realm \<Rightarrow> int" where
  "multi_paragraph_message_count db r =
     int (length (filter (\<lambda>m. sender_realm_is db r m
                              \<and> contains (content m) [CHR 0x0A, CHR 0x0A])
                    (human_messages_qs db)))"

section \<open>Running the command\<close>

text \<open>
  A run of the command reads the store, writes lines to standard output and may end in
  an exception. The state of a run is the store together with what has been printed; a
  step returns its value or the exception raised, and the state it leaves.
\<close>

datatype error =
    DoesNotExist string
  | ZeroDivisionError
  | CommandError error

text \<open>
  One \<open>line\<close> per \<^verbatim>\<open>print\<close> call of the source, holding the values its format string
  shows:
  \<^item> \<open>RealmName s\<close>: \<^verbatim>\<open>print(realm.string_id)\<close>
  \<^item> \<open>ActiveUsers a t\<close>: \<^verbatim>\<open>"{a} active users ({t} total)"\<close>
  \<^item> \<open>Streams n\<close>: \<^verbatim>\<open>"{n} streams"\<close>
  \<^item> \<open>InLastDays d\<close>: \<^verbatim>\<open>"In last {d} days, users sent:"\<close>
  \<^item> \<open>Quantity q\<close>: \<^verbatim>\<open>print(q, end=' ')\<close>
  \<^item> \<open>EmptyLine\<close>: \<^verbatim>\<open>print("")\<close>
  \<^item> \<open>StreamMessages n\<close>: \<^verbatim>\<open>"{n} stream messages"\<close>
  \<^item> \<open>PrivateMessages n\<close>: \<^verbatim>\<open>"{n} one-on-one private messages"\<close>
  \<^item> \<open>ApiMessages n\<close>: \<^verbatim>\<open>"{n} messages sent via the API"\<close>
  \<^item> \<open>GroupPrivateMessages n\<close>: \<^verbatim>\<open>"{n} group private messages"\<close>
  \<^item> \<open>Percentage v text\<close>: \<^verbatim>\<open>print(f"{v:.2f}% of", text)\<close>
  \<^item> \<open>Starred x y\<close>: \<^verbatim>\<open>"{x} users have starred {y} messages"\<close>
  \<^item> \<open>NotInHomeView x y\<close>: \<^verbatim>\<open>"{x} users have {y} streams not in home view"\<close>
  \<^item> \<open>CodeBlock x y\<close>: \<^verbatim>\<open>"{x} users have used code block markup on {y} messages"\<close>
  \<^item> \<open>Notifications x y\<close>: \<^verbatim>\<open>"{x} users receive desktop notifications for {y} streams"\<close>

  The number in a \<open>Percentage\<close> is the exact value of the quotient; the rounding of the
  binary floating-point division and of the two-digit format are not modelled.
\<close>

datatype line =
    RealmName string
  | ActiveUsers int int
  | Streams int
  | InLastDays int
  | Quantity int
  | EmptyLine
  | StreamMessages int
  | PrivateMessages int
  | ApiMessages int
  | GroupPrivateMessages int
  | Percentage rat string
  | Starred int int
  | NotInHomeView int int
  | CodeBlock int int
  | Notifications int int

record world =
  store :: database
  stdout :: "line list"

type_synonym 'a cmd = "world \<Rightarrow> (error + 'a) \<times> world"

definition ok :: "'a \<Rightarrow> 'a cmd" where
  "ok x = (\<lambda>w. (Inr x, w))"

definition raise :: "error \<Rightarrow> 'a cmd" where
  "raise e = (\<lambda>w. (Inl e, w))"

definition and_then :: "'a cmd \<Rightarrow> ('a \<Rightarrow> 'b cmd) \<Rightarrow> 'b cmd" where
  "and_then c f =
     (\<lambda>w. case c w of
             (Inl e, w') \<Rightarrow> (Inl e, w')
           | (Inr x, w') \<Rightarrow> f x w')"

text \<open>A query that may raise, and one that does not: both leave the state as it is.\<close>

definition attempt :: "(database \<Rightarrow> error + 'a) \<Rightarrow> 'a cmd" where
  "attempt q = (\<lambda>w. (q (store w), w))"

definition select :: "(database \<Rightarrow> 'a) \<Rightarrow> 'a cmd" where
  "select q = attempt (\<lambda>db. Inr (q db))"

definition print :: "line \<Rightarrow> unit cmd" where
  "print l = (\<lambda>w. (Inr (), w\<lparr>stdout := stdout w @ [l]\<rparr>))"

fun for_each :: "'a list \<Rightarrow> ('a \<Rightarrow> unit cmd) \<Rightarrow> unit cmd" where
  "for_each [] body = ok ()"
| "for_each (x # xs) body = and_then (body x) (\<lambda>_. for_each xs body)"

text \<open>A block of statements.\<close>

definition block :: "unit cmd list \<Rightarrow> unit cmd" where
  "block cs = for_each cs (\<lambda>c. c)"

text \<open>\<^verbatim>\<open>try: c  except Realm.DoesNotExist as e: h(e)\<close>\<close>

definition except_DoesNotExist :: "'a cmd \<Rightarrow> (error \<Rightarrow> 'a cmd) \<Rightarrow> 'a cmd" where
  "except_DoesNotExist c h =
     (\<lambda>w. case c w of
             (Inl (DoesNotExist s), w') \<Rightarrow> h (DoesNotExist s) w'
           | res \<Rightarrow> res)"

text \<open>
  Modelled from the spec: \<^verbatim>\<open>zerver.models.get_realm\<close> is not part of the sources. By the
  spec a tenant identifier that names no realm is an error "naming the bad identifier",
  which \<^verbatim>\<open>handle\<close> catches as \<^verbatim>\<open>Realm.DoesNotExist\<close>; an identifier that names a realm
  gives that realm.
\<close>

definition get_realm :: "database \<Rightarrow> string \<Rightarrow> error + realm" where
  "get_realm db sid =
     (case find (\<lambda>r. string_id r = sid) (realms db) of
        None \<Rightarrow> Inl (DoesNotExist sid)
      | Some r \<Rightarrow> Inr r)"

text \<open>\<^verbatim>\<open>[get_realm(string_id) for string_id in options['realms']]\<close>\<close>

fun get_realms :: "string list \<Rightarrow> realm list cmd" where
  "get_realms [] = ok []"
| "get_realms (sid # sids) =
     and_then (attempt (\<lambda>db. get_realm db sid)) (\<lambda>r.
     and_then (get_realms sids) (\<lambda>rs.
     ok (r # rs)))"

text \<open>\<^verbatim>\<open>numerator / float(denominator)\<close>\<close>

definition truediv :: "rat \<Rightarrow> rat \<Rightarrow> rat cmd" where
  "truediv a b = (if b = 0 then raise ZeroDivisionError else ok (a / b))"

definition report_percentage :: "rat \<Rightarrow> rat \<Rightarrow> string \<Rightarrow> unit cmd" where
  "report_percentage numerator denominator text =
     and_then (if denominator = 0 then ok 0 else truediv numerator denominator) (\<lambda>fraction.
     print (Percentage (fraction * 100) text))"

text \<open>
  The body of \<^verbatim>\<open>for days_ago in (1, 7, 30)\<close>. A run of the command is taken at one instant:
  the clock stands still while it runs, and every reading of the clock in it is \<open>now\<close>.
\<close>

definition report_days :: "int \<Rightarrow> realm \<Rightarrow> user_profile list \<Rightarrow> int \<Rightarrow> unit cmd" where
  "report_days now r user_profiles days_ago =
     block
       [print (InLastDays days_ago),
        and_then (select (\<lambda>db. map (\<lambda>user. messages_sent_by db now user days_ago) user_profiles))
          (\<lambda>sender_quantities.
             for_each (rev (sort sender_quantities)) (\<lambda>quantity. print (Quantity quantity))),
        print EmptyLine,
        and_then (select (\<lambda>db. stream_messages db now r days_ago)) (\<lambda>n. print (StreamMessages n)),
        and_then (select (\<lambda>db. private_messages db now r days_ago)) (\<lambda>n. print (PrivateMessages n)),
        and_then (select (\<lambda>db. api_messages db now now r days_ago)) (\<lambda>n. print (ApiMessages n)),
        and_then (select (\<lambda>db. group_private_messages db now r days_ago))
          (\<lambda>n. print (GroupPrivateMessages n))]"

text \<open>\<^verbatim>\<open>len(elts)\<close> and \<^verbatim>\<open>sum([elt["count"] for elt in elts])\<close>\<close>

definition len :: "'a list \<Rightarrow> int" where
  "len xs = int (length xs)"

definition sum_counts :: "(nat \<times> nat) list \<Rightarrow> int" where
  "sum_counts elts = int (sum_list (map snd elts))"

text \<open>The body of \<^verbatim>\<open>for realm in realms\<close>.\<close>

definition report_realm :: "int \<Rightarrow> realm \<Rightarrow> unit cmd" where
  "report_realm now r =
     and_then (print (RealmName (string_id r))) (\<lambda>_.
     and_then (select (\<lambda>db. user_profiles_of db r)) (\<lambda>user_profiles.
     and_then (select (\<lambda>db. active_users db now r)) (\<lambda>active_users.
     let num_active = len active_users in
     block
       [print (ActiveUsers num_active (len user_profiles)),
        and_then (select (\<lambda>db. subscribed_streams db r)) (\<lambda>streams. print (Streams (len streams))),
        for_each [1, 7, 30] (report_days now r user_profiles),
        report_percentage
          (of_int (len (filter enable_desktop_notifications active_users))) (of_int num_active)
          ''active users have desktop notifications enabled'',
        report_percentage
          (of_int (len (filter enter_sends active_users))) (of_int num_active)
          ''active users have enter-sends'',
        and_then (select (\<lambda>db. all_message_count db r)) (\<lambda>all_message_count.
        and_then (select (\<lambda>db. multi_paragraph_message_count db r))
          (\<lambda>multi_paragraph_message_count.
             report_percentage (of_int multi_paragraph_message_count) (of_int all_message_count)
               ''all messages are multi-paragraph'')),
        and_then (select (\<lambda>db. starrers db user_profiles))
          (\<lambda>elts. print (Starred (len elts) (sum_counts elts))),
        and_then (select (\<lambda>db. non_home_view db user_profiles))
          (\<lambda>elts. print (NotInHomeView (len elts) (sum_counts elts))),
        and_then (select (\<lambda>db. markup_messages db r))
          (\<lambda>elts. print (CodeBlock (len elts) (sum_counts elts))),
        and_then (select (\<lambda>db. notifications db user_profiles))
          (\<lambda>elts. print (Notifications (len elts) (sum_counts elts))),
        print EmptyLine])))"

text \<open>\<^verbatim>\<open>Command.handle\<close>, with \<^verbatim>\<open>options['realms']\<close> as its argument.\<close>

definition handle :: "int \<Rightarrow> string list \<Rightarrow> unit cmd" where
  "handle now options_realms =
     and_then
       (if options_realms \<noteq> [] then
          except_DoesNotExist (get_realms options_realms) (\<lambda>e. raise (CommandError e))
        else select realms)
       (\<lambda>realms. for_each realms (report_realm now))"

section \<open>Notions used to state the properties\<close>

text \<open>
  What a command prints when it is run on a store, and the commands that do nothing but
  print: they end without an exception, leave the store alone and append to standard
  output lines that depend on the store only.
\<close>

definition printed :: "unit cmd \<Rightarrow> database \<Rightarrow> line list" where
  "printed c db = stdout (snd (c \<lparr>store = db, stdout = []\<rparr>))"

definition printer :: "unit cmd \<Rightarrow> bool" where
  "printer c = (\<forall>w. c w = (Inr (), w\<lparr>stdout := stdout w @ printed c (store w)\<rparr>))"

text \<open>A command that leaves the store as it found it, whether it ends in an exception or not.\<close>

definition reads :: "'a cmd \<Rightarrow> bool" where
  "reads c = (\<forall>w. store (snd (c w)) = store w)"

text \<open>Referential integrity of \<^verbatim>\<open>Message.recipient\<close>: every message has its recipient row.\<close>

definition recipients_exist :: "database \<Rightarrow> bool" where
  "recipients_exist db = list_all (\<lambda>m. get_recipient db (recipient m) \<noteq> None) (messages db)"

text \<open>The domain of \<^verbatim>\<open>Recipient.type\<close>: every recipient row has one of the three types.\<close>

definition recipient_types_known :: "database \<Rightarrow> bool" where
  "recipient_types_known db =
     list_all (\<lambda>rc. recipient_type rc \<in> {PERSONAL, STREAM, HUDDLE}) (recipients db)"

text \<open>
  The human messages of a realm in a window whose recipient row has a type other than
  \<open>PERSONAL\<close>, \<open>STREAM\<close> and \<open>HUDDLE\<close>.
\<close>

definition other_category_messages :: "database \<Rightarrow> int \<Rightarrow> realm \<Rightarrow> int \<Rightarrow> int" where
  "other_category_messages db now r days_ago =
     int (length (filter (\<lambda>m. sender_realm_is db r m \<and> date_sent m > cutoff now days_ago
                              \<and> recipient_type_is_not db PERSONAL m
                              \<and> recipient_type_is_not db STREAM m
                              \<and> recipient_type_is_not db HUDDLE m)
                    (human_messages_qs db)))"

subsection \<open>Three stores\<close>

text \<open>A store with one message of each recipient type.\<close>

definition three_category_db :: database where
  "three_category_db =
     \<lparr>realms = [\<lparr>realm_id = 1, string_id = ''zulip''\<rparr>],
      clients = [\<lparr>client_id = 1, client_name = ''website''\<rparr>],
      users = [\<lparr>user_id = 1, user_realm = 1, is_active = True,
                enable_desktop_notifications = True, enter_sends = False\<rparr>],
      recipients = [\<lparr>recipient_id = 1, recipient_type = 1, type_id = 1\<rparr>,
                    \<lparr>recipient_id = 2, recipient_type = 2, type_id = 1\<rparr>,
                    \<lparr>recipient_id = 3, recipient_type = 3, type_id = 1\<rparr>],
      messages = [\<lparr>message_id = 1, sender = 1, recipient = 1, content = ''one'',
                   date_sent = 0, sending_client = 1\<rparr>,
                  \<lparr>message_id = 2, sender = 1, recipient = 2, content = ''two'',
                   date_sent = 0, sending_client = 1\<rparr>,
                  \<lparr>message_id = 3, sender = 1, recipient = 3, content = ''three'',
                   date_sent = 0, sending_client = 1\<rparr>],
      streams = [], subscriptions = [], user_activities = [], user_messages = []\<rparr>"

text \<open>
  A store whose only message was sent from the web client one microsecond after the
  cutoff of the one-day window that ends at time 0.
\<close>

definition boundary_db :: database where
  "boundary_db =
     \<lparr>realms = [\<lparr>realm_id = 1, string_id = ''zulip''\<rparr>],
      clients = [\<lparr>client_id = 1, client_name = ''website''\<rparr>],
      users = [\<lparr>user_id = 1, user_realm = 1, is_active = True,
                enable_desktop_notifications = True, enter_sends = False\<rparr>],
      recipients = [\<lparr>recipient_id = 1, recipient_type = 2, type_id = 1\<rparr>],
      messages = [\<lparr>message_id = 1, sender = 1, recipient = 1, content = ''hi'',
                   date_sent = - 86399999999, sending_client = 1\<rparr>],
      streams = [], subscriptions = [], user_activities = [], user_messages = []\<rparr>"

text \<open>A store with two realms, three users and three messages.\<close>

definition example_db :: database where
  "example_db =
     \<lparr>realms = [\<lparr>realm_id = 1, string_id = ''zulip''\<rparr>, \<lparr>realm_id = 2, string_id = ''lear''\<rparr>],
      clients = [\<lparr>client_id = 1, client_name = ''website''\<rparr>,
                 \<lparr>client_id = 2, client_name = ''ZulipPython''\<rparr>],
      users = [\<lparr>user_id = 1, user_realm = 1, is_active = True,
                enable_desktop_notifications = True, enter_sends = False\<rparr>,
               \<lparr>user_id = 2, user_realm = 1, is_active = False,
                enable_desktop_notifications = False, enter_sends = True\<rparr>,
               \<lparr>user_id = 3, user_realm = 2, is_active = True,
                enable_desktop_notifications = True, enter_sends = True\<rparr>],
      recipients = [\<lparr>recipient_id = 1, recipient_type = 2, type_id = 1\<rparr>,
                    \<lparr>recipient_id = 2, recipient_type = 1, type_id = 2\<rparr>],
      messages = [\<lparr>message_id = 1, sender = 1, recipient = 1, content = ''hello'',
                   date_sent = 0, sending_client = 1\<rparr>,
                  \<lparr>message_id = 2, sender = 2, recipient = 2, content = ''~~~'',
                   date_sent = 0, sending_client = 1\<rparr>,
                  \<lparr>message_id = 3, sender = 1, recipient = 1, content = ''bot'',
                   date_sent = 0, sending_client = 2\<rparr>],
      streams = [\<lparr>stream_id = 1, stream_realm = 1, stream_name = ''general''\<rparr>],
      subscriptions = [\<lparr>sub_user_profile = 1, sub_recipient = 1, active = True,
                        is_muted = True, desktop_notifications = False\<rparr>],
      user_activities = [\<lparr>ua_user_profile = 1, ua_client = 1,
                          query = ''/json/users/me/pointer'', last_visit = 0\<rparr>],
      user_messages = [\<lparr>um_user_profile = 1, um_message = 1, starred = True\<rparr>]\<rparr>"

section \<open>Properties of the queries\<close>

subsection \<open>Messages by recipient category\<close>

lemma three_way_count:
  "list_all (\<lambda>m. get_recipient db (recipient m) \<noteq> None) xs \<Longrightarrow>
   length (filter (recipient_type_is db STREAM) xs)
   + length (filter (recipient_type_is_not db HUDDLE) (filter (recipient_type_is_not db STREAM) xs))
   + length (filter (recipient_type_is_not db PERSONAL) (filter (recipient_type_is_not db STREAM) xs))
   = length xs
   + length (filter (\<lambda>m. recipient_type_is_not db PERSONAL m \<and> recipient_type_is_not db STREAM m
                         \<and> recipient_type_is_not db HUDDLE m) xs)"
  by (induction xs)
     (auto simp: recipient_type_is_def recipient_type_is_not_def PERSONAL_def STREAM_def HUDDLE_def
           split: option.splits)

lemma list_all_filter_sub: "list_all P xs \<Longrightarrow> list_all P (filter Q xs)"
  by (simp add: list_all_iff)

lemma sum_eq_human_plus_other:
  assumes "recipients_exist db"
  shows "stream_messages db now r d + private_messages db now r d + group_private_messages db now r d
         = human_messages db now r d + other_category_messages db now r d"
proof -
  let ?W = "filter (\<lambda>m. sender_realm_is db r m \<and> date_sent m > cutoff now d) (human_messages_qs db)"
  have ex: "list_all (\<lambda>m. get_recipient db (recipient m) \<noteq> None) ?W"
    using assms unfolding recipients_exist_def human_messages_qs_def
    by (intro list_all_filter_sub)
  have s: "stream_messages db now r d = int (length (filter (recipient_type_is db STREAM) ?W))"
    by (simp add: stream_messages_def conj_ac)
  have o: "other_category_messages db now r d =
      int (length (filter (\<lambda>m. recipient_type_is_not db PERSONAL m \<and> recipient_type_is_not db STREAM m
                         \<and> recipient_type_is_not db HUDDLE m) ?W))"
    by (simp add: other_category_messages_def conj_ac)
  show ?thesis
    unfolding s o private_messages_def group_private_messages_def human_messages_def Let_def
    using three_way_count [OF ex] by linarith
qed

lemma get_recipient_in: "get_recipient db k = Some rc \<Longrightarrow> rc \<in> set (recipients db)"
  by (auto simp: get_recipient_def find_Some_iff)

lemma known_types_no_other:
  assumes "recipient_types_known db"
  shows "other_category_messages db now r d = 0"
proof -
  have "\<not> (recipient_type_is_not db PERSONAL m \<and> recipient_type_is_not db STREAM m
            \<and> recipient_type_is_not db HUDDLE m)" for m
  proof (cases "get_recipient db (recipient m)")
    case None
    then show ?thesis by (simp add: recipient_type_is_not_def)
  next
    case (Some rc)
    then have "rc \<in> set (recipients db)" by (rule get_recipient_in)
    with assms have "recipient_type rc \<in> {PERSONAL, STREAM, HUDDLE}"
      by (simp add: recipient_types_known_def list_all_iff)
    with Some show ?thesis by (auto simp: recipient_type_is_not_def)
  qed
  then show ?thesis by (simp add: other_category_messages_def)
qed

text \<open>
  Claim C1. For every realm and window
  \<open>stream_messages + private_messages + group_private_messages \<le> human_messages\<close>, with
  equality exactly when no human message of the realm in the window has a recipient
  category other than stream, one-on-one and group direct. The store is one where every
  message has its recipient row and every recipient row one of the three types; there
  the three counts add up to \<open>human_messages\<close>.
\<close>

theorem category_sum_le_human:
  assumes "recipients_exist db" and "recipient_types_known db"
  shows "stream_messages db now r d + private_messages db now r d + group_private_messages db now r d
           \<le> human_messages db now r d
         \<and> (stream_messages db now r d + private_messages db now r d + group_private_messages db now r d
              = human_messages db now r d
            \<longleftrightarrow> other_category_messages db now r d = 0)
         \<and> other_category_messages db now r d = 0"
  using sum_eq_human_plus_other [OF assms(1), of now r d]
        known_types_no_other [OF assms(2), of now r d]
  by simp

theorem category_sum_le_human_witness:
  "recipients_exist three_category_db \<and> recipient_types_known three_category_db
   \<and> stream_messages three_category_db 0 \<lparr>realm_id = 1, string_id = ''zulip''\<rparr> 1
       + private_messages three_category_db 0 \<lparr>realm_id = 1, string_id = ''zulip''\<rparr> 1
       + group_private_messages three_category_db 0 \<lparr>realm_id = 1, string_id = ''zulip''\<rparr> 1
     \<le> human_messages three_category_db 0 \<lparr>realm_id = 1, string_id = ''zulip''\<rparr> 1"
proof -
  have e: "recipients_exist three_category_db"
    by (simp add: recipients_exist_def three_category_db_def get_recipient_def)
  have k: "recipient_types_known three_category_db"
    by (simp add: recipient_types_known_def three_category_db_def PERSONAL_def STREAM_def HUDDLE_def)
  from category_sum_le_human [OF e k, of 0 "\<lparr>realm_id = 1, string_id = ''zulip''\<rparr>" 1] e k
  show ?thesis by blast
qed

subsection \<open>Human and API traffic\<close>

lemma length_filter_minus:
  "int (length xs) - int (length (filter P xs)) = int (length (filter (\<lambda>x. \<not> P x) xs))"
  using sum_length_filter_compl [of P xs] by linarith

lemma filter_swap: "filter P (filter Q xs) = filter Q (filter P xs)"
  by (simp add: conj_commute)

lemma length_filter_mono:
  "(\<And>x. x \<in> set xs \<Longrightarrow> P x \<Longrightarrow> Q x) \<Longrightarrow> length (filter P xs) \<le> length (filter Q xs)"
  by (induction xs) auto

lemma find_by_key:
  "distinct (map f xs) \<Longrightarrow> x \<in> set xs \<Longrightarrow> find (\<lambda>y. f y = f x) xs = Some x"
  by (induction xs) auto

lemma human_messages_outside:
  "human_messages db now r d
     = int (length (filter (\<lambda>m. m \<in> set (human_messages_qs db))
              (filter (\<lambda>m. sender_realm_is db r m \<and> date_sent m > cutoff now d) (messages db))))"
proof -
  have "filter (\<lambda>m. m \<in> set (human_messages_qs db))
          (filter (\<lambda>m. sender_realm_is db r m \<and> date_sent m > cutoff now d) (messages db))
        = filter (sending_client_name_in db HUMAN_CLIENT_LIST)
            (filter (\<lambda>m. sender_realm_is db r m \<and> date_sent m > cutoff now d) (messages db))"
    by (rule filter_cong) (auto simp: human_messages_qs_def)
  then show ?thesis
    unfolding human_messages_def human_messages_qs_def Let_def
    by (subst filter_swap) simp
qed

lemma api_messages_same_reading:
  "api_messages db now now r d
     = int (length (filter (\<lambda>m. m \<notin> set (human_messages_qs db))
              (filter (\<lambda>m. sender_realm_is db r m \<and> date_sent m > cutoff now d) (messages db))))"
  unfolding api_messages_def human_messages_outside total_messages_def Let_def
  by (rule length_filter_minus)

lemma human_messages_antimono:
  assumes "now1 \<le> now2"
  shows "human_messages db now2 r d \<le> human_messages db now1 r d"
proof -
  have "cutoff now1 d \<le> cutoff now2 d"
    using assms by (simp add: cutoff_def)
  then have "length (filter (\<lambda>m. sender_realm_is db r m \<and> date_sent m > cutoff now2 d)
                       (human_messages_qs db))
             \<le> length (filter (\<lambda>m. sender_realm_is db r m \<and> date_sent m > cutoff now1 d)
                       (human_messages_qs db))"
    by (intro length_filter_mono) auto
  then show ?thesis
    by (simp add: human_messages_def)
qed

text \<open>
  Claim C3. For every realm and window \<open>total_messages\<close> should be \<open>human_messages\<close> plus
  \<open>api_messages\<close>. \<open>api_messages\<close> is the difference of the two other counts, but it takes
  them at two readings of the clock, and so over two windows. On the store below the one
  message was sent from the web client; with the readings 0 and 1 (one microsecond
  apart) it is in the window of the total and out of the window of the human count:
  \<open>api_messages\<close> is 1 and the total, 1, is not the sum of the human count, 1, and the
  API count.
\<close>

theorem api_messages_between_readings:
  "human_messages_qs boundary_db = messages boundary_db
   \<and> total_messages boundary_db 0 \<lparr>realm_id = 1, string_id = ''zulip''\<rparr> 1 = 1
   \<and> human_messages boundary_db 0 \<lparr>realm_id = 1, string_id = ''zulip''\<rparr> 1 = 1
   \<and> api_messages boundary_db 0 1 \<lparr>realm_id = 1, string_id = ''zulip''\<rparr> 1 = 1
   \<and> total_messages boundary_db 0 \<lparr>realm_id = 1, string_id = ''zulip''\<rparr> 1
       \<noteq> human_messages boundary_db 0 \<lparr>realm_id = 1, string_id = ''zulip''\<rparr> 1
         + api_messages boundary_db 0 1 \<lparr>realm_id = 1, string_id = ''zulip''\<rparr> 1"
  by (simp add: api_messages_def total_messages_def
        human_messages_def human_messages_qs_def boundary_db_def sender_realm_is_def
        sending_client_name_in_def get_user_def get_client_def
        HUMAN_CLIENT_LIST_def MOBILE_CLIENT_LIST_def cutoff_def timedelta_days_def)

lemma get_client_distinct:
  "distinct (map client_id (clients db)) \<Longrightarrow> c \<in> set (clients db)
   \<Longrightarrow> get_client db (client_id c) = Some c"
  unfolding get_client_def by (rule find_by_key)

text \<open>
  Claim C6. The human clients are the fixed list \<^verbatim>\<open>"Android"\<close>, \<^verbatim>\<open>"ios"\<close>, \<^verbatim>\<open>"website"\<close>. A
  message of the store is a human message exactly when the name of its sending client,
  the row of the client table with its \<^verbatim>\<open>sending_client\<close> key, is in this list. Every
  other message of a realm in the window is counted by \<open>api_messages\<close>, whose second
  reading of the clock is not before the first; when the two readings are the same,
  \<open>api_messages\<close> counts these messages and no others.
\<close>

theorem human_traffic_by_client_name:
  assumes "distinct (map client_id (clients db))"
    and "m \<in> set (messages db)"
    and "c \<in> set (clients db)"
    and "client_id c = sending_client m"
    and "now1 \<le> now2"
  shows "HUMAN_CLIENT_LIST = [''Android'', ''ios'', ''website'']
   \<and> (m \<in> set (human_messages_qs db) \<longleftrightarrow> client_name c \<in> {''Android'', ''ios'', ''website''})
   \<and> int (length (filter (\<lambda>m. m \<notin> set (human_messages_qs db))
          (filter (\<lambda>m. sender_realm_is db r m \<and> date_sent m > cutoff now1 d) (messages db))))
       \<le> api_messages db now1 now2 r d
   \<and> api_messages db now1 now1 r d
       = int (length (filter (\<lambda>m. m \<notin> set (human_messages_qs db))
          (filter (\<lambda>m. sender_realm_is db r m \<and> date_sent m > cutoff now1 d) (messages db))))"
proof -
  have l: "HUMAN_CLIENT_LIST = [''Android'', ''ios'', ''website'']"
    by (simp add: HUMAN_CLIENT_LIST_def MOBILE_CLIENT_LIST_def)
  have "get_client db (sending_client m) = Some c"
    using get_client_distinct [OF assms(1) assms(3)] assms(4) by simp
  with assms(2) have h: "m \<in> set (human_messages_qs db)
      \<longleftrightarrow> client_name c \<in> {''Android'', ''ios'', ''website''}"
    by (simp add: human_messages_qs_def sending_client_name_in_def l)
  have "api_messages db now1 now1 r d \<le> api_messages db now1 now2 r d"
    using human_messages_antimono [OF assms(5), of db r d] by (simp add: api_messages_def)
  with l h api_messages_same_reading [of db now1 r d] show ?thesis
    by simp
qed

theorem human_traffic_by_client_name_witness:
  "distinct (map client_id (clients example_db))
   \<and> \<lparr>message_id = 3, sender = 1, recipient = 1, content = ''bot'',
       date_sent = 0, sending_client = 2\<rparr> \<in> set (messages example_db)
   \<and> \<lparr>client_id = 2, client_name = ''ZulipPython''\<rparr> \<in> set (clients example_db)
   \<and> client_id \<lparr>client_id = 2, client_name = ''ZulipPython''\<rparr>
       = sending_client \<lparr>message_id = 3, sender = 1, recipient = 1, content = ''bot'',
           date_sent = 0, sending_client = 2\<rparr>
   \<and> (0::int) \<le> 1
   \<and> \<lparr>message_id = 3, sender = 1, recipient = 1, content = ''bot'',
       date_sent = 0, sending_client = 2\<rparr> \<notin> set (human_messages_qs example_db)"
proof -
  let ?m = "\<lparr>message_id = 3, sender = 1, recipient = 1, content = ''bot'',
             date_sent = 0, sending_client = 2\<rparr>"
  let ?c = "\<lparr>client_id = 2, client_name = ''ZulipPython''\<rparr>"
  have 1: "distinct (map client_id (clients example_db))"
    by (simp add: example_db_def)
  have 2: "?m \<in> set (messages example_db)"
    by (simp add: example_db_def)
  have 3: "?c \<in> set (clients example_db)"
    by (simp add: example_db_def)
  have 4: "client_id ?c = sending_client ?m"
    by simp
  have 5: "(0::int) \<le> 1"
    by simp
  from human_traffic_by_client_name [OF 1 2 3 4 5]
  have "?m \<notin> set (human_messages_qs example_db)"
    by simp
  with 1 2 3 4 5 show ?thesis by blast
qed

subsection \<open>Messages by sender\<close>

lemma count_by_sender:
  "distinct (map user_id us) \<Longrightarrow>
   (\<Sum>u\<leftarrow>us. int (length (filter (\<lambda>m. sender m = user_id u \<and> P m) xs)))
   = int (length (filter (\<lambda>m. sender m \<in> user_id ` set us \<and> P m) xs))"
proof (induction us)
  case Nil
  then show ?case by simp
next
  case (Cons u us)
  have "length (filter (\<lambda>m. sender m = user_id u \<and> P m) xs)
        + length (filter (\<lambda>m. sender m \<in> user_id ` set us \<and> P m) xs)
        = length (filter (\<lambda>m. sender m \<in> user_id ` set (u # us) \<and> P m) xs)"
    using Cons.prems by (induction xs) auto
  with Cons show ?case by simp
qed

lemma get_user_distinct:
  "distinct (map user_id (users db)) \<Longrightarrow> u \<in> set (users db) \<Longrightarrow> get_user db (user_id u) = Some u"
  unfolding get_user_def by (rule find_by_key)

text \<open>
  Claim C9. For every realm and window the numbers \<open>messages_sent_by user\<close> of the active
  users of the realm add up to at most \<open>human_messages\<close> of the realm: a message has one
  sender, and the messages of deactivated senders count for the realm only. The primary
  key \<^verbatim>\<open>UserProfile.id\<close> is what makes a sender one user.
\<close>

theorem sent_by_users_le_human:
  assumes "distinct (map user_id (users db))"
  shows "(\<Sum>user\<leftarrow>user_profiles_of db r. messages_sent_by db now user d) \<le> human_messages db now r d"
proof -
  let ?us = "user_profiles_of db r"
  have d: "distinct (map user_id ?us)"
    using assms unfolding user_profiles_of_def by (rule distinct_map_filter)
  have "(\<Sum>user\<leftarrow>?us. messages_sent_by db now user d)
        = int (length (filter (\<lambda>m. sender m \<in> user_id ` set ?us \<and> date_sent m > cutoff now d)
                        (human_messages_qs db)))"
    unfolding messages_sent_by_def Let_def by (rule count_by_sender [OF d])
  also have "\<dots> \<le> human_messages db now r d"
    unfolding human_messages_def Let_def
  proof (simp, rule length_filter_mono)
    fix m :: message
    assume "sender m \<in> user_id ` set ?us \<and> cutoff now d < date_sent m"
    then obtain u where u: "u \<in> set (users db)" "user_realm u = realm_id r" "sender m = user_id u"
      and t: "cutoff now d < date_sent m"
      by (auto simp: user_profiles_of_def)
    from get_user_distinct [OF assms u(1)] u
    show "sender_realm_is db r m \<and> cutoff now d < date_sent m"
      using t by (simp add: sender_realm_is_def)
  qed
  finally show ?thesis .
qed

theorem sent_by_users_le_human_witness:
  "distinct (map user_id (users example_db))
   \<and> (\<Sum>user\<leftarrow>user_profiles_of example_db \<lparr>realm_id = 1, string_id = ''zulip''\<rparr>.
         messages_sent_by example_db 0 user 7)
       \<le> human_messages example_db 0 \<lparr>realm_id = 1, string_id = ''zulip''\<rparr> 7"
proof -
  have d: "distinct (map user_id (users example_db))"
    by (simp add: example_db_def)
  from sent_by_users_le_human [OF d] d show ?thesis by blast
qed

subsection \<open>Grouped counts\<close>

lemma values_count_le:
  "len (values_count ks) \<le> sum_counts (values_count ks)"
proof -
  have "\<And>ys. set ys \<subseteq> set ks \<Longrightarrow> length ys \<le> sum_list (map (count_list ks) ys)"
  proof -
    fix ys show "set ys \<subseteq> set ks \<Longrightarrow> length ys \<le> sum_list (map (count_list ks) ys)"
    proof (induction ys)
      case Nil then show ?case by simp
    next
      case (Cons y ys)
      then have "count_list ks y \<noteq> 0" by (simp add: count_list_0_iff)
      with Cons show ?case by simp
    qed
  qed
  from this [of "remdups ks"] show ?thesis
    by (simp add: len_def sum_counts_def values_count_def comp_def)
qed

lemma values_count_total: "sum_counts (values_count ks) = len ks"
  by (simp add: len_def sum_counts_def values_count_def comp_def
        sum_list_distinct_conv_sum_set sum_count_set)

section \<open>Properties of a run\<close>

subsection \<open>Commands that only print\<close>

lemma printerD: "printer c \<Longrightarrow> c w = (Inr (), w\<lparr>stdout := stdout w @ printed c (store w)\<rparr>)"
  by (simp add: printer_def)

lemma printed_print [simp]: "printed (print l) db = [l]"
  by (simp add: printed_def print_def)

lemma printer_print [simp]: "printer (print l)"
  by (simp add: printer_def) (simp add: print_def)

lemma printed_ok [simp]: "printed (ok ()) db = []"
  by (simp add: printed_def ok_def)

lemma printer_ok [simp]: "printer (ok ())"
  by (simp add: printer_def) (simp add: ok_def)

lemma and_then_run:
  assumes "printer c" and "\<And>x. printer (f x)"
  shows "and_then c f w =
    (Inr (), w\<lparr>stdout := stdout w @ printed c (store w) @ printed (f ()) (store w)\<rparr>)"
  using printerD [OF assms(1), of w]
        printerD [OF assms(2), of "()" "w\<lparr>stdout := stdout w @ printed c (store w)\<rparr>"]
  by (simp add: and_then_def)

lemma printed_and_then [simp]:
  "printer c \<Longrightarrow> (\<And>x. printer (f x)) \<Longrightarrow>
   printed (and_then c f) db = printed c db @ printed (f ()) db"
  by (simp add: printed_def [of "and_then c f"] and_then_run)

lemma printer_and_then [simp]:
  "printer c \<Longrightarrow> (\<And>x. printer (f x)) \<Longrightarrow> printer (and_then c f)"
  by (simp add: printer_def [of "and_then c f"] and_then_run)

lemma select_run:
  assumes "\<And>v. printer (f v)"
  shows "and_then (select q) f w =
    (Inr (), w\<lparr>stdout := stdout w @ printed (f (q (store w))) (store w)\<rparr>)"
  using printerD [OF assms, of "q (store w)" w]
  by (simp add: and_then_def select_def attempt_def)

lemma printed_select [simp]:
  "(\<And>v. printer (f v)) \<Longrightarrow> printed (and_then (select q) f) db = printed (f (q db)) db"
  by (simp add: printed_def [of "and_then (select q) f"] select_run)

lemma printer_select [simp]:
  "(\<And>v. printer (f v)) \<Longrightarrow> printer (and_then (select q) f)"
  by (simp add: printer_def [of "and_then (select q) f"] select_run)

lemma printer_for_each [simp]:
  "(\<And>x. printer (body x)) \<Longrightarrow> printer (for_each xs body)"
  by (induction xs) simp_all

lemma printed_for_each [simp]:
  "(\<And>x. printer (body x)) \<Longrightarrow>
   printed (for_each xs body) db = concat (map (\<lambda>x. printed (body x) db) xs)"
  by (induction xs) simp_all

lemma block_both:
  "list_all printer cs \<Longrightarrow>
   printer (for_each cs (\<lambda>c. c))
   \<and> printed (for_each cs (\<lambda>c. c)) db = concat (map (\<lambda>c. printed c db) cs)"
  by (induction cs) simp_all

lemma printer_block [simp]: "list_all printer cs \<Longrightarrow> printer (block cs)"
  unfolding block_def using block_both by blast

lemma printed_block [simp]:
  "list_all printer cs \<Longrightarrow> printed (block cs) db = concat (map (\<lambda>c. printed c db) cs)"
  unfolding block_def using block_both by blast

lemma report_percentage_run:
  "report_percentage n d text w =
     (Inr (), w\<lparr>stdout := stdout w @ [Percentage (if d = 0 then 0 else n / d * 100) text]\<rparr>)"
  by (simp add: report_percentage_def truediv_def and_then_def ok_def print_def)

lemma printed_report_percentage [simp]:
  "printed (report_percentage n d text) db = [Percentage (if d = 0 then 0 else n / d * 100) text]"
  by (simp add: printed_def report_percentage_run)

lemma printer_report_percentage [simp]: "printer (report_percentage n d text)"
  by (simp add: printer_def) (simp add: report_percentage_run)

lemma printer_report_days [simp]: "printer (report_days now r ups d)"
  by (simp add: report_days_def)

lemma printed_report_days:
  "printed (report_days now r ups d) db =
     [InLastDays d]
     @ map Quantity (rev (sort (map (\<lambda>user. messages_sent_by db now user d) ups)))
     @ [EmptyLine,
        StreamMessages (stream_messages db now r d),
        PrivateMessages (private_messages db now r d),
        ApiMessages (api_messages db now now r d),
        GroupPrivateMessages (group_private_messages db now r d)]"
  by (simp add: report_days_def concat_map_singleton)

lemma printer_report_realm [simp]: "printer (report_realm now r)"
  by (simp add: report_realm_def Let_def)

lemma printed_report_realm:
  "printed (report_realm now r) db =
     (let ups = user_profiles_of db r; au = active_users db now r in
     [RealmName (string_id r),
      ActiveUsers (len au) (len ups),
      Streams (len (subscribed_streams db r))]
     @ printed (report_days now r ups 1) db
     @ printed (report_days now r ups 7) db
     @ printed (report_days now r ups 30) db
     @ [Percentage (if len au = 0 then 0
                    else of_int (len (filter enable_desktop_notifications au)) / of_int (len au) * 100)
          ''active users have desktop notifications enabled'',
        Percentage (if len au = 0 then 0
                    else of_int (len (filter enter_sends au)) / of_int (len au) * 100)
          ''active users have enter-sends'',
        Percentage (if all_message_count db r = 0 then 0
                    else of_int (multi_paragraph_message_count db r) / of_int (all_message_count db r) * 100)
          ''all messages are multi-paragraph'',
        Starred (len (starrers db ups)) (sum_counts (starrers db ups)),
        NotInHomeView (len (non_home_view db ups)) (sum_counts (non_home_view db ups)),
        CodeBlock (len (markup_messages db r)) (sum_counts (markup_messages db r)),
        Notifications (len (notifications db ups)) (sum_counts (notifications db ups)),
        EmptyLine])"
  by (simp add: report_realm_def Let_def)


subsection \<open>Percentages\<close>

text \<open>
  Claim C2. \<open>report_percentage\<close> with denominator 0 prints the percentage 0 (\<^verbatim>\<open>0.00%\<close>) and
  ends without an exception; with any other denominator it prints the quotient of
  numerator and denominator times 100. The division is never reached with a zero
  denominator, where it would raise \<open>ZeroDivisionError\<close>.
\<close>

theorem report_percentage_zero_denominator:
  "report_percentage n 0 text w = (Inr (), w\<lparr>stdout := stdout w @ [Percentage 0 text]\<rparr>)
   \<and> report_percentage n d text w
       = (Inr (), w\<lparr>stdout := stdout w @ [Percentage (if d = 0 then 0 else n / d * 100) text]\<rparr>)
   \<and> truediv n 0 w = (Inl ZeroDivisionError, w)"
  by (simp add: report_percentage_run truediv_def raise_def)

subsection \<open>The lines of a realm\<close>

lemma ex_mid: "xs = a @ b @ c @ d @ post \<Longrightarrow> \<exists>pre post'. xs = pre @ b @ c @ d @ post'"
  by blast

lemma ex_prefix: "xs = a @ b @ c @ d @ p1 # p2 # p3 # rest \<Longrightarrow> \<exists>pre. xs = pre @ rest"
  by (rule exI [of _ "a @ b @ c @ d @ [p1, p2, p3]"]) simp

text \<open>
  Claim C7. The report of a realm contains the blocks of the windows of 1, 7 and 30 days,
  in this order. The block of a window is its heading, the message counts of the users
  in descending order, and then the numbers of stream messages, one-on-one private
  messages, messages sent via the API and group private messages, in this order.
\<close>

theorem report_days_lines:
  "(\<exists>pre post.
      printed (report_realm now r) db =
        pre @ printed (report_days now r (user_profiles_of db r) 1) db
            @ printed (report_days now r (user_profiles_of db r) 7) db
            @ printed (report_days now r (user_profiles_of db r) 30) db
            @ post)
   \<and> printer (report_days now r ups d)
   \<and> printed (report_days now r ups d) db =
       [InLastDays d]
       @ map Quantity (rev (sort (map (\<lambda>user. messages_sent_by db now user d) ups)))
       @ [EmptyLine,
          StreamMessages (stream_messages db now r d),
          PrivateMessages (private_messages db now r d),
          ApiMessages (api_messages db now now r d),
          GroupPrivateMessages (group_private_messages db now r d)]
   \<and> sorted_wrt (\<ge>) (rev (sort (map (\<lambda>user. messages_sent_by db now user d) ups)))
   \<and> mset (rev (sort (map (\<lambda>user. messages_sent_by db now user d) ups)))
       = mset (map (\<lambda>user. messages_sent_by db now user d) ups)"
proof -
  have 1: "\<exists>pre post.
      printed (report_realm now r) db =
        pre @ printed (report_days now r (user_profiles_of db r) 1) db
            @ printed (report_days now r (user_profiles_of db r) 7) db
            @ printed (report_days now r (user_profiles_of db r) 30) db
            @ post"
    by (rule ex_mid [OF printed_report_realm [unfolded Let_def]])
  have 2: "sorted_wrt (\<ge>) (rev (sort (map (\<lambda>user. messages_sent_by db now user d) ups)))"
    by (simp add: sorted_wrt_rev)
  have 3: "mset (rev (sort (map (\<lambda>user. messages_sent_by db now user d) ups)))
       = mset (map (\<lambda>user. messages_sent_by db now user d) ups)"
    by simp
  from 1 2 3 printed_report_days [of now r ups d db] printer_report_days [of now r ups d]
  show ?thesis by blast
qed

text \<open>
  Claim C10. The report of a realm ends with the lines about starred messages, streams
  not in the home view, code block markup and desktop notifications for streams; in each
  of them the number of users is at most the number of items, every counted user
  standing for at least one item.
\<close>

theorem users_le_items:
  "len (starrers db (user_profiles_of db r)) \<le> sum_counts (starrers db (user_profiles_of db r))
   \<and> len (non_home_view db (user_profiles_of db r))
       \<le> sum_counts (non_home_view db (user_profiles_of db r))
   \<and> len (markup_messages db r) \<le> sum_counts (markup_messages db r)
   \<and> len (notifications db (user_profiles_of db r))
       \<le> sum_counts (notifications db (user_profiles_of db r))
   \<and> (\<exists>pre. printed (report_realm now r) db =
        pre @ [Starred (len (starrers db (user_profiles_of db r)))
                 (sum_counts (starrers db (user_profiles_of db r))),
               NotInHomeView (len (non_home_view db (user_profiles_of db r)))
                 (sum_counts (non_home_view db (user_profiles_of db r))),
               CodeBlock (len (markup_messages db r)) (sum_counts (markup_messages db r)),
               Notifications (len (notifications db (user_profiles_of db r)))
                 (sum_counts (notifications db (user_profiles_of db r))),
               EmptyLine])"
proof -
  have 1: "len (starrers db (user_profiles_of db r)) \<le> sum_counts (starrers db (user_profiles_of db r))"
    unfolding starrers_def by (rule values_count_le)
  have 2: "len (non_home_view db (user_profiles_of db r))
       \<le> sum_counts (non_home_view db (user_profiles_of db r))"
    unfolding non_home_view_def by (rule values_count_le)
  have 3: "len (markup_messages db r) \<le> sum_counts (markup_messages db r)"
    unfolding markup_messages_def by (rule values_count_le)
  have 4: "len (notifications db (user_profiles_of db r))
       \<le> sum_counts (notifications db (user_profiles_of db r))"
    unfolding notifications_def by (rule values_count_le)
  have 5: "\<exists>pre. printed (report_realm now r) db =
        pre @ [Starred (len (starrers db (user_profiles_of db r)))
                 (sum_counts (starrers db (user_profiles_of db r))),
               NotInHomeView (len (non_home_view db (user_profiles_of db r)))
                 (sum_counts (non_home_view db (user_profiles_of db r))),
               CodeBlock (len (markup_messages db r)) (sum_counts (markup_messages db r)),
               Notifications (len (notifications db (user_profiles_of db r)))
                 (sum_counts (notifications db (user_profiles_of db r))),
               EmptyLine]"
    by (rule ex_prefix [OF printed_report_realm [unfolded Let_def]])
  from 1 2 3 4 5 show ?thesis by blast
qed

subsection \<open>The store\<close>

lemma reads_ok [simp]: "reads (ok x)" by (simp add: reads_def ok_def)
lemma reads_raise [simp]: "reads (raise e)" by (simp add: reads_def raise_def)
lemma reads_attempt [simp]: "reads (attempt q)" by (simp add: reads_def attempt_def)
lemma reads_select [simp]: "reads (select q)" by (simp add: select_def)
lemma reads_print [simp]: "reads (print l)" by (simp add: reads_def print_def)
lemma reads_and_then [simp]: "reads c \<Longrightarrow> (\<And>x. reads (f x)) \<Longrightarrow> reads (and_then c f)"
  unfolding reads_def and_then_def
  by (auto split: prod.splits sum.splits) (metis snd_conv)+
lemma reads_except [simp]: "reads c \<Longrightarrow> (\<And>e. reads (h e)) \<Longrightarrow> reads (except_DoesNotExist c h)"
  unfolding reads_def except_DoesNotExist_def
  by (auto split: prod.splits sum.splits error.splits) (metis snd_conv)+
lemma reads_for_each [simp]: "(\<And>x. reads (body x)) \<Longrightarrow> reads (for_each xs body)"
  by (induction xs) simp_all
lemma reads_block [simp]: "list_all reads cs \<Longrightarrow> reads (block cs)"
  unfolding block_def by (induction cs) simp_all
lemma reads_get_realms [simp]: "reads (get_realms sids)"
  by (induction sids) simp_all
lemma reads_truediv [simp]: "reads (truediv a b)" by (simp add: truediv_def)
lemma reads_report_percentage [simp]: "reads (report_percentage n d t)" by (simp add: report_percentage_def)
lemma reads_report_days [simp]: "reads (report_days now r ups d)" by (simp add: report_days_def)
lemma reads_report_realm [simp]: "reads (report_realm now r)" by (simp add: report_realm_def Let_def)
lemma reads_handle: "reads (handle now ids)" by (simp add: handle_def)

text \<open>
  Claim C8. A run of the command only reads: whatever the arguments, and whether the run
  ends in an exception or not, the store after the run is the store before it, with all
  its tables.
\<close>

theorem handle_store_unchanged: "store (snd (handle now options_realms w)) = store w"
  using reads_handle by (simp add: reads_def)

subsection \<open>The realms of a run\<close>

lemma get_realm_Inl: "get_realm db s = Inl e \<longleftrightarrow> s \<notin> string_id ` set (realms db) \<and> e = DoesNotExist s"
proof (cases "find (\<lambda>r. string_id r = s) (realms db)")
  case None
  then have "s \<notin> string_id ` set (realms db)"
    by (auto simp: find_None_iff)
  with None show ?thesis
    by (auto simp: get_realm_def)
next
  case (Some r)
  then have "r \<in> set (realms db)" "string_id r = s"
    by (auto simp: find_Some_iff)
  with Some show ?thesis
    by (auto simp: get_realm_def)
qed

lemma get_realms_run:
  "get_realms ids w =
     (case find (\<lambda>s. s \<notin> string_id ` set (realms (store w))) ids of
        Some bad \<Rightarrow> (Inl (DoesNotExist bad), w)
      | None \<Rightarrow> (Inr (map (\<lambda>s. the (find (\<lambda>r. string_id r = s) (realms (store w)))) ids), w))"
proof (induction ids)
  case Nil
  show ?case by (simp add: ok_def)
next
  case (Cons s ids)
  show ?case
  proof (cases "s \<in> string_id ` set (realms (store w))")
    case False
    then have "get_realm (store w) s = Inl (DoesNotExist s)"
      by (simp add: get_realm_Inl)
    with False show ?thesis by (simp add: and_then_def attempt_def)
  next
    case True
    then obtain r where r: "find (\<lambda>r. string_id r = s) (realms (store w)) = Some r"
      by (cases "find (\<lambda>r. string_id r = s) (realms (store w))") (auto simp: find_None_iff)
    then have "get_realm (store w) s = Inr r"
      by (simp add: get_realm_def)
    with True r Cons show ?thesis
      by (simp add: and_then_def attempt_def ok_def split: option.splits)
  qed
qed

text \<open>
  Claim C4. When one of the identifiers given names no realm, the run ends in a
  \<open>CommandError\<close> that names the first such identifier, and nothing has been printed: not
  for the realms named before it either.
\<close>

theorem unknown_realm_aborts:
  assumes "s \<in> set ids" and "s \<notin> string_id ` set (realms (store w))"
  shows "\<exists>bad. find (\<lambda>s. s \<notin> string_id ` set (realms (store w))) ids = Some bad
               \<and> handle now ids w = (Inl (CommandError (DoesNotExist bad)), w)"
proof -
  from assms obtain bad where
    bad: "find (\<lambda>s. s \<notin> string_id ` set (realms (store w))) ids = Some bad"
    by (cases "find (\<lambda>s. s \<notin> string_id ` set (realms (store w))) ids")
       (auto simp: find_None_iff)
  from assms(1) have ne: "ids \<noteq> []" by auto
  have "handle now ids w = (Inl (CommandError (DoesNotExist bad)), w)"
    using ne by (simp add: handle_def and_then_def except_DoesNotExist_def get_realms_run bad raise_def)
  with bad show ?thesis by blast
qed

theorem unknown_realm_aborts_witness:
  "''nope'' \<in> set [''zulip'', ''nope'', ''lear'']
   \<and> ''nope'' \<notin> string_id ` set (realms (store \<lparr>store = example_db, stdout = []\<rparr>))
   \<and> handle 0 [''zulip'', ''nope'', ''lear''] \<lparr>store = example_db, stdout = []\<rparr>
       = (Inl (CommandError (DoesNotExist ''nope'')), \<lparr>store = example_db, stdout = []\<rparr>)"
  using unknown_realm_aborts [of "''nope''" "[''zulip'', ''nope'', ''lear'']" "\<lparr>store = example_db, stdout = []\<rparr>" 0]
  by (simp add: example_db_def)

lemma for_each_run:
  "for_each rs (report_realm now) w =
     (Inr (), w\<lparr>stdout := stdout w @ concat (map (\<lambda>r. printed (report_realm now r) (store w)) rs)\<rparr>)"
  using printerD [of "for_each rs (report_realm now)" w] by simp

lemma handle_all_run:
  "handle now [] w =
     (Inr (), w\<lparr>stdout := stdout w
                  @ concat (map (\<lambda>r. printed (report_realm now r) (store w)) (realms (store w)))\<rparr>)"
  by (simp add: handle_def and_then_def select_def attempt_def for_each_run)

lemma handle_known_run:
  assumes "ids \<noteq> []" and "set ids \<subseteq> string_id ` set (realms (store w))"
  shows "handle now ids w =
     (Inr (), w\<lparr>stdout := stdout w
        @ concat (map (\<lambda>r. printed (report_realm now r) (store w))
            (map (\<lambda>s. the (find (\<lambda>r. string_id r = s) (realms (store w)))) ids))\<rparr>)"
proof -
  have "find (\<lambda>s. s \<notin> string_id ` set (realms (store w))) ids = None"
    using assms(2) by (auto simp: find_None_iff)
  with assms(1) show ?thesis
    by (simp add: handle_def and_then_def except_DoesNotExist_def get_realms_run for_each_run)
qed

text \<open>
  Claim C5. A run without identifiers reports every realm of the store. A run with the
  identifiers of all realms, each once and in any order, reports the same realms with
  the same lines for each, in the order of the identifiers; with the identifiers in the
  order of the store the two runs are the same. The identifier of a realm is unique.
\<close>

theorem empty_realm_list_is_all_realms:
  assumes "distinct (map string_id (realms (store w)))"
    and "mset ids = mset (map string_id (realms (store w)))"
  shows "handle now [] w =
           (Inr (), w\<lparr>stdout := stdout w
              @ concat (map (\<lambda>r. printed (report_realm now r) (store w)) (realms (store w)))\<rparr>)
         \<and> (\<exists>rs. map string_id rs = ids \<and> mset rs = mset (realms (store w))
                 \<and> handle now ids w =
                     (Inr (), w\<lparr>stdout := stdout w
                        @ concat (map (\<lambda>r. printed (report_realm now r) (store w)) rs)\<rparr>))
         \<and> handle now (map string_id (realms (store w))) w = handle now [] w"
proof -
  let ?all = "realms (store w)"
  let ?get = "\<lambda>s. the (find (\<lambda>r. string_id r = s) ?all)"
  let ?out = "\<lambda>rs. (Inr () :: error + unit,
     w\<lparr>stdout := stdout w @ concat (map (\<lambda>r. printed (report_realm now r) (store w)) rs)\<rparr>)"
  have get: "?get (string_id r) = r" if "r \<in> set ?all" for r
    using find_by_key [OF assms(1) that] by simp
  have same: "map ?get (map string_id ?all) = ?all"
    using get by (simp add: map_idI)
  have all: "handle now [] w = ?out ?all"
    by (rule handle_all_run)
  have listed: "handle now (map string_id ?all) w = handle now [] w"
  proof (cases "?all = []")
    case True
    then show ?thesis by simp
  next
    case False
    then have "handle now (map string_id ?all) w = ?out (map ?get (map string_id ?all))"
      by (intro handle_known_run) simp_all
    with same all show ?thesis by simp
  qed
  have "\<exists>rs. map string_id rs = ids \<and> mset rs = mset ?all \<and> handle now ids w = ?out rs"
  proof (cases "ids = []")
    case True
    with assms(2) have "?all = []" by simp
    with True all show ?thesis by simp
  next
    case False
    have sub: "set ids \<subseteq> string_id ` set ?all"
      using assms(2) by (metis mset_eq_setD set_map subset_refl)
    have "mset (map ?get ids) = image_mset ?get (mset ids)"
      by (simp only: mset_map)
    also have "\<dots> = image_mset ?get (mset (map string_id ?all))"
      by (simp only: assms(2))
    also have "\<dots> = mset (map ?get (map string_id ?all))"
      by (simp only: mset_map)
    also have "\<dots> = mset ?all"
      by (simp only: same)
    finally have perm: "mset (map ?get ids) = mset ?all" .
    have "string_id (?get s) = s" if "s \<in> set ids" for s
    proof -
      from that sub obtain r where "r \<in> set ?all" "s = string_id r" by auto
      with get show ?thesis by simp
    qed
    then have names: "map string_id (map ?get ids) = ids"
      by (simp add: map_idI)
    from handle_known_run [OF False sub, of now] perm names show ?thesis by blast
  qed
  with all listed show ?thesis by blast
qed

theorem empty_realm_list_is_all_realms_witness:
  "distinct (map string_id (realms (store \<lparr>store = example_db, stdout = []\<rparr>)))
   \<and> mset [''lear'', ''zulip''] = mset (map string_id (realms (store \<lparr>store = example_db, stdout = []\<rparr>)))
   \<and> handle 0 (map string_id (realms (store \<lparr>store = example_db, stdout = []\<rparr>)))
        \<lparr>store = example_db, stdout = []\<rparr>
     = handle 0 [] \<lparr>store = example_db, stdout = []\<rparr>"
proof -
  have d: "distinct (map string_id (realms (store \<lparr>store = example_db, stdout = []\<rparr>)))"
    by (simp add: example_db_def)
  have m: "mset [''lear'', ''zulip''] = mset (map string_id (realms (store \<lparr>store = example_db, stdout = []\<rparr>)))"
    by (simp add: example_db_def)
  from empty_realm_list_is_all_realms [OF d m, of 0] d m show ?thesis by blast
qed

end
